theory Spec2Isabelle
  imports Complex_Main "HOL-Library.Log_Nat"
begin

section \<open>JavaScript numbers, operators and platform functions\<close>

text \<open>
  A JavaScript \<^verbatim>\<open>number\<close> is modelled as a rational: every amount, rate and total of
  the program is a finite decimal value. \<^verbatim>\<open>NaN\<close> and the infinities are not values of
  the model (a parse that yields \<^verbatim>\<open>NaN\<close> is \<open>None\<close>). The totals of an invoice are
  computed on whole rupees and are modelled with exact arithmetic; the amount of a
  duration divides the rate by 30, and there every operation is rounded as a double is
  (\<open>to_double\<close> below). The sign of a zero is kept only where the program's output
  shows it (the currency formatter).

  \<^verbatim>\<open>Math.round\<close> rounds to the nearest integer, a tie going towards plus infinity.
\<close>

definition Math_round :: "rat \<Rightarrow> int" where
  "Math_round x = \<lfloor>x + 1 / 2\<rfloor>"

text \<open>
  The operator \<^verbatim>\<open>%\<close> on integers: the remainder of the division that truncates towards
  zero, so the result has the sign of the dividend.
\<close>

definition js_rem :: "int \<Rightarrow> int \<Rightarrow> int" where
  "js_rem a b = sgn a * (\<bar>a\<bar> mod \<bar>b\<bar>)"




text \<open>A value of type \<^verbatim>\<open>number | string\<close>.\<close>

datatype num_or_str = Num rat | Str string


text \<open>
  \<^verbatim>\<open>String.prototype.trim\<close> on the ASCII white space characters (space, tab, line
  feed, vertical tab, form feed, carriage return).
\<close>

definition is_ws :: "char \<Rightarrow> bool" where
  "is_ws c = (c \<in> set [CHR '' '', CHR 0x09, CHR 0x0A, CHR 0x0B, CHR 0x0C, CHR 0x0D])"

definition js_trim :: "string \<Rightarrow> string" where
  "js_trim s = rev (dropWhile is_ws (rev (dropWhile is_ws s)))"

text \<open>\<^verbatim>\<open>s.split('\n')\<close>: the pieces between line feeds, of which there is always one.\<close>

fun split_lines :: "string \<Rightarrow> string list" where
  "split_lines [] = [[]]"
| "split_lines (c # cs) =
     (if c = CHR 0x0A then [] # split_lines cs
      else (case split_lines cs of
              [] \<Rightarrow> [[c]]
            | l # ls \<Rightarrow> (c # l) # ls))"

text \<open>
  Reading an array of strings at an integer index and concatenating the result: an index
  out of range reads \<^verbatim>\<open>undefined\<close>, which concatenation turns into that word.
\<close>

definition arr_get :: "string list \<Rightarrow> int \<Rightarrow> string" where
  "arr_get xs i = (if 0 \<le> i \<and> i < int (length xs) then xs ! nat i else ''undefined'')"

subsection \<open>The number formatter of the platform for the locale en-IN\<close>

text \<open>
  \<^verbatim>\<open>new Intl.NumberFormat('en-IN', {minimumFractionDigits: 0, maximumFractionDigits: 0})\<close>
  applied to an integer: the decimal digits, the last three as one group and the digits
  before them in groups of two, separated by commas, behind a minus sign for a negative
  number and for negative zero.
\<close>

definition digit_char :: "nat \<Rightarrow> char" where
  "digit_char d = ''0123456789'' ! d"

fun digits10 :: "nat \<Rightarrow> string" where
  "digits10 n = (if n < 10 then [digit_char n] else digits10 (n div 10) @ [digit_char (n mod 10)])"

declare digits10.simps [simp del]

text \<open>On the reversed digits before the last three: a comma after every second digit that
  has a digit behind it.\<close>

fun group_pairs :: "string \<Rightarrow> string" where
  "group_pairs (a # b # c # r) = a # b # CHR '','' # group_pairs (c # r)"
| "group_pairs r = r"

definition group_en_IN :: "string \<Rightarrow> string" where
  "group_en_IN ds =
     (let r = rev ds
      in if length r \<le> 3 then ds
         else rev (take 3 r @ CHR '','' # group_pairs (drop 3 r)))"

text \<open>The first argument is the sign bit of the number, the second its integer value.\<close>

definition Intl_format_en_IN :: "bool \<Rightarrow> int \<Rightarrow> string" where
  "Intl_format_en_IN negative r =
     (if negative then ''-'' else '''') @ group_en_IN (digits10 (nat \<bar>r\<bar>))"

section \<open>lib/utils.ts\<close>

subsection \<open>formatCurrency\<close>

text \<open>
  \<^verbatim>\<open>parseFloat\<close> is a parameter: \<open>None\<close> stands for \<^verbatim>\<open>NaN\<close>. The rounded amount
  has its sign bit set exactly when the amount is negative, since \<^verbatim>\<open>Math.round\<close> of a
  value in \<open>[-0.5, 0)\<close> is negative zero.
\<close>

definition formatCurrency :: "(string \<Rightarrow> rat option) \<Rightarrow> num_or_str \<Rightarrow> string" where
  "formatCurrency parseFloat amt =
     (let number = (\<lambda>a. if a = 0 then ''''
                         else (let roundedAmount = Math_round a
                               in Intl_format_en_IN (a < 0) roundedAmount))
      in case amt of
           Str s \<Rightarrow>
             if s = '''' \<or> s = ''0'' then ''''
             else (case parseFloat s of
                     None \<Rightarrow> s
                   | Some numAmount \<Rightarrow> number numAmount)
         | Num a \<Rightarrow> number a)"

subsection \<open>numberToWords\<close>

text \<open>
  The function is called with the result of \<^verbatim>\<open>Math.round\<close>, so its argument is an
  integer. \<^verbatim>\<open>Math.floor(n / k)\<close> on integers is \<open>n div k\<close>.
\<close>

definition ones :: "string list" where
  "ones = ['''', ''One'', ''Two'', ''Three'', ''Four'', ''Five'', ''Six'', ''Seven'', ''Eight'', ''Nine'']"

definition teens :: "string list" where
  "teens = [''Ten'', ''Eleven'', ''Twelve'', ''Thirteen'', ''Fourteen'', ''Fifteen'', ''Sixteen'',
            ''Seventeen'', ''Eighteen'', ''Nineteen'']"

definition tens :: "string list" where
  "tens = ['''', '''', ''Twenty'', ''Thirty'', ''Forty'', ''Fifty'', ''Sixty'', ''Seventy'', ''Eighty'',
           ''Ninety'']"

definition convertHundreds :: "int \<Rightarrow> string" where
  "convertHundreds n0 =
     (let (result1, n1) =
            (if n0 \<ge> 100 then (arr_get ones (n0 div 100) @ '' Hundred '', js_rem n0 100)
             else ('''', n0))
      in if n1 \<ge> 20 then
           (let result2 = result1 @ arr_get tens (n1 div 10) @ '' '';
                n2 = js_rem n1 10
            in if n2 > 0 then result2 @ arr_get ones n2 @ '' '' else result2)
         else if n1 \<ge> 10 then result1 @ arr_get teens (n1 - 10) @ '' ''
         else if n1 > 0 then result1 @ arr_get ones n1 @ '' ''
         else result1)"

definition numberToWords :: "int \<Rightarrow> string" where
  "numberToWords num =
     (if num = 0 then ''Zero''
      else
        (let crores = num div 10000000;
             lakhs = js_rem num 10000000 div 100000;
             thousandsValue = js_rem num 100000 div 1000;
             hundreds = js_rem num 1000;
             r1 = (if crores > 0 then convertHundreds crores @ ''Crore '' else '''');
             r2 = (if lakhs > 0 then r1 @ convertHundreds lakhs @ ''Lakh '' else r1);
             r3 = (if thousandsValue > 0 then r2 @ convertHundreds thousandsValue @ ''Thousand ''
                   else r2);
             r4 = (if hundreds > 0 then r3 @ convertHundreds hundreds else r3)
         in js_trim r4 @ '' Only''))"

subsection \<open>The state codes and getStateFromGSTIN\<close>

record StateInfo =
  si_state :: string
  si_code :: string

definition GST_STATE_CODES :: "(string \<times> StateInfo) list" where
  "GST_STATE_CODES =
    [(''01'', \<lparr>si_state = ''Jammu and Kashmir'', si_code = ''01''\<rparr>),
     (''02'', \<lparr>si_state = ''Himachal Pradesh'', si_code = ''02''\<rparr>),
     (''03'', \<lparr>si_state = ''Punjab'', si_code = ''03''\<rparr>),
     (''04'', \<lparr>si_state = ''Chandigarh'', si_code = ''04''\<rparr>),
     (''05'', \<lparr>si_state = ''Uttarakhand'', si_code = ''05''\<rparr>),
     (''06'', \<lparr>si_state = ''Haryana'', si_code = ''06''\<rparr>),
     (''07'', \<lparr>si_state = ''Delhi'', si_code = ''07''\<rparr>),
     (''08'', \<lparr>si_state = ''Rajasthan'', si_code = ''08''\<rparr>),
     (''09'', \<lparr>si_state = ''Uttar Pradesh'', si_code = ''09''\<rparr>),
     (''10'', \<lparr>si_state = ''Bihar'', si_code = ''10''\<rparr>),
     (''11'', \<lparr>si_state = ''Sikkim'', si_code = ''11''\<rparr>),
     (''12'', \<lparr>si_state = ''Arunachal Pradesh'', si_code = ''12''\<rparr>),
     (''13'', \<lparr>si_state = ''Nagaland'', si_code = ''13''\<rparr>),
     (''14'', \<lparr>si_state = ''Manipur'', si_code = ''14''\<rparr>),
     (''15'', \<lparr>si_state = ''Mizoram'', si_code = ''15''\<rparr>),
     (''16'', \<lparr>si_state = ''Tripura'', si_code = ''16''\<rparr>),
     (''17'', \<lparr>si_state = ''Meghalaya'', si_code = ''17''\<rparr>),
     (''18'', \<lparr>si_state = ''Assam'', si_code = ''18''\<rparr>),
     (''19'', \<lparr>si_state = ''West Bengal'', si_code = ''19''\<rparr>),
     (''20'', \<lparr>si_state = ''Jharkhand'', si_code = ''20''\<rparr>),
     (''21'', \<lparr>si_state = ''Odisha'', si_code = ''21''\<rparr>),
     (''22'', \<lparr>si_state = ''Chhattisgarh'', si_code = ''22''\<rparr>),
     (''23'', \<lparr>si_state = ''Madhya Pradesh'', si_code = ''23''\<rparr>),
     (''24'', \<lparr>si_state = ''Gujarat'', si_code = ''24''\<rparr>),
     (''26'', \<lparr>si_state = ''Dadra and Nagar Haveli and Daman and Diu'', si_code = ''26''\<rparr>),
     (''27'', \<lparr>si_state = ''Maharashtra'', si_code = ''27''\<rparr>),
     (''29'', \<lparr>si_state = ''Karnataka'', si_code = ''29''\<rparr>),
     (''30'', \<lparr>si_state = ''Goa'', si_code = ''30''\<rparr>),
     (''31'', \<lparr>si_state = ''Lakshadweep'', si_code = ''31''\<rparr>),
     (''32'', \<lparr>si_state = ''Kerala'', si_code = ''32''\<rparr>),
     (''33'', \<lparr>si_state = ''Tamil Nadu'', si_code = ''33''\<rparr>),
     (''34'', \<lparr>si_state = ''Puducherry'', si_code = ''34''\<rparr>),
     (''35'', \<lparr>si_state = ''Andaman and Nicobar Islands'', si_code = ''35''\<rparr>),
     (''36'', \<lparr>si_state = ''Telangana'', si_code = ''36''\<rparr>),
     (''37'', \<lparr>si_state = ''Andhra Pradesh'', si_code = ''37''\<rparr>),
     (''38'', \<lparr>si_state = ''Ladakh'', si_code = ''38''\<rparr>)]"

text \<open>The result \<^verbatim>\<open>null\<close> is \<open>None\<close>. Every entry of the table is an object, hence truthy,
  so \<^verbatim>\<open>|| null\<close> only replaces a missing entry.\<close>

definition getStateFromGSTIN :: "string \<Rightarrow> StateInfo option" where
  "getStateFromGSTIN gstin =
     (if gstin = [] \<or> length gstin < 2 then None
      else (let stateCode = take 2 gstin in map_of GST_STATE_CODES stateCode))"

subsection \<open>calculateGST\<close>

record GST =
  g_cgst :: rat
  g_sgst :: rat
  g_igst :: rat
  g_total :: rat

definition calculateGST :: "rat \<Rightarrow> rat \<Rightarrow> GST" where
  "calculateGST amount gstRate =
     (let roundedAmount = of_int (Math_round amount);
          gstAmount = of_int (Math_round ((roundedAmount * gstRate) / 100))
      in \<lparr>g_cgst = of_int (Math_round (gstAmount / 2)),
          g_sgst = of_int (Math_round (gstAmount / 2)),
          g_igst = of_int (Math_round gstAmount),
          g_total = of_int (Math_round (roundedAmount + gstAmount))\<rparr>)"

section \<open>types/invoice.ts\<close>

record InvoiceItem =
  item_id :: string
  sno :: int
  town :: string
  location :: string
  hsn :: string
  media :: string
  item_size :: string
  area :: num_or_str
  item_type :: string
  ratePM :: num_or_str
  period :: string
  amount :: rat

record BillingParty =
  name :: string
  address :: string
  city :: string
  state :: string
  pincode :: string
  gstin :: string
  phone :: "string option"
  email :: "string option"

record Invoice =
  invoiceNumber :: string
  invoiceDate :: string
  dueDate :: "string option"
  poNumber :: "string option"
  poDate :: "string option"
  displayName :: "string option"
  duration :: "string option"
  billingParty :: BillingParty
  items :: "InvoiceItem list"
  subtotal :: rat
  cgst :: rat
  sgst :: rat
  igst :: rat
  grandTotal :: rat
  totalInWords :: string
  termsAndConditions :: "string list"

record InvoiceFormData =
  fd_invoiceNumber :: string
  fd_invoiceDate :: string
  fd_dueDate :: string
  fd_creditDays :: rat
  fd_poNumber :: string
  fd_poDate :: string
  fd_displayName :: string
  fd_duration :: string
  fd_startDate :: string
  fd_billingParty :: BillingParty
  fd_items :: "InvoiceItem list"
  fd_gstRate :: rat
  fd_isInterstate :: bool
  fd_termsAndConditions :: string

section \<open>components/InvoiceForm.tsx\<close>

definition INITIAL_ITEM :: "string \<Rightarrow> int \<Rightarrow> InvoiceItem" where
  "INITIAL_ITEM new_id new_sno =
     \<lparr>item_id = new_id, sno = new_sno, town = '''', location = '''', hsn = ''998366'',
      media = '''', item_size = '''', area = Str '''', item_type = '''', ratePM = Str '''',
      period = '''', amount = 0\<rparr>"

subsection \<open>calculateAmountFromDuration\<close>


subsection \<open>The item list of the form\<close>

text \<open>
  The three callbacks update the state \<open>prev\<close>. \<open>now\<close> is \<^verbatim>\<open>Date.now().toString()\<close>.
  \<open>addItem\<close> numbers the new item from the item count of the rendered form data, which
  its closure holds; the component renders again after every update.
\<close>

definition addItem :: "string \<Rightarrow> InvoiceFormData \<Rightarrow> InvoiceFormData \<Rightarrow> InvoiceFormData" where
  "addItem now formData prev =
     (let newItem = INITIAL_ITEM now (int (length (fd_items formData)) + 1)
      in prev\<lparr>fd_items := fd_items prev @ [newItem]\<rparr>)"

fun renumber :: "nat \<Rightarrow> InvoiceItem list \<Rightarrow> InvoiceItem list" where
  "renumber index [] = []"
| "renumber index (item # rest) = item\<lparr>sno := int index + 1\<rparr> # renumber (Suc index) rest"

definition removeItem :: "string \<Rightarrow> InvoiceFormData \<Rightarrow> InvoiceFormData" where
  "removeItem rid prev =
     prev\<lparr>fd_items := renumber 0 (filter (\<lambda>item. item_id item \<noteq> rid) (fd_items prev))\<rparr>"

definition copyItem :: "string \<Rightarrow> string \<Rightarrow> InvoiceFormData \<Rightarrow> InvoiceFormData" where
  "copyItem now cid prev =
     (case find (\<lambda>item. item_id item = cid) (fd_items prev) of
        None \<Rightarrow> prev
      | Some itemToCopy \<Rightarrow>
          (let copiedItem = itemToCopy\<lparr>item_id := now, sno := int (length (fd_items prev)) + 1\<rparr>
           in prev\<lparr>fd_items := fd_items prev @ [copiedItem]\<rparr>))"

subsection \<open>calculateTotals and generateInvoice\<close>

record Totals =
  t_subtotal :: rat
  t_cgst :: rat
  t_sgst :: rat
  t_igst :: rat
  t_grandTotal :: rat

definition calculateTotals :: "InvoiceFormData \<Rightarrow> Totals" where
  "calculateTotals formData =
     (let sub = of_int (Math_round (foldl (\<lambda>sum item. sum + amount item) 0 (fd_items formData)));
          gst = calculateGST sub (fd_gstRate formData)
      in \<lparr>t_subtotal = sub,
          t_cgst = (if fd_isInterstate formData then 0 else g_cgst gst),
          t_sgst = (if fd_isInterstate formData then 0 else g_sgst gst),
          t_igst = (if fd_isInterstate formData then g_igst gst else 0),
          t_grandTotal = g_total gst\<rparr>)"

text \<open>\<^verbatim>\<open>s || undefined\<close>: an empty string becomes an absent field.\<close>

definition or_undefined :: "string \<Rightarrow> string option" where
  "or_undefined s = (if s = [] then None else Some s)"

definition generateInvoice :: "InvoiceFormData \<Rightarrow> Invoice" where
  "generateInvoice formData =
     (let totals = calculateTotals formData
      in \<lparr>invoiceNumber = fd_invoiceNumber formData,
          invoiceDate = fd_invoiceDate formData,
          dueDate = or_undefined (fd_dueDate formData),
          poNumber = or_undefined (fd_poNumber formData),
          poDate = or_undefined (fd_poDate formData),
          displayName = or_undefined (fd_displayName formData),
          duration = or_undefined (fd_duration formData),
          billingParty = fd_billingParty formData,
          items = fd_items formData,
          subtotal = t_subtotal totals,
          cgst = t_cgst totals,
          sgst = t_sgst totals,
          igst = t_igst totals,
          grandTotal = t_grandTotal totals,
          totalInWords = numberToWords (Math_round (t_grandTotal totals)),
          termsAndConditions =
            filter (\<lambda>term. js_trim term \<noteq> []) (split_lines (fd_termsAndConditions formData))\<rparr>)"

section \<open>lib/pdf-export.ts\<close>

definition formatCompactCurrency :: "(string \<Rightarrow> rat option) \<Rightarrow> num_or_str \<Rightarrow> string" where
  "formatCompactCurrency parseFloat amt =
     (let number = (\<lambda>a. if a = 0 then ''''
                         else (let roundedAmount = Math_round a
                               in Intl_format_en_IN (a < 0) roundedAmount))
      in case amt of
           Str s \<Rightarrow>
             if s = '''' \<or> s = ''0'' then ''''
             else (case parseFloat s of
                     None \<Rightarrow> s
                   | Some numAmount \<Rightarrow> number numAmount)
         | Num a \<Rightarrow> number a)"

subsection \<open>The combined table of generateRestOfPDF\<close>

text \<open>\<open>toString\<close> is \<^verbatim>\<open>Number.prototype.toString\<close>, a parameter.\<close>

definition itemRow :: "(string \<Rightarrow> rat option) \<Rightarrow> (rat \<Rightarrow> string) \<Rightarrow> InvoiceItem \<Rightarrow> string list" where
  "itemRow parseFloat toString item =
     [toString (of_int (sno item)),
      town item,
      location item,
      hsn item,
      media item,
      item_size item,
      (case area item of Str s \<Rightarrow> s | Num a \<Rightarrow> toString a),
      item_type item,
      formatCompactCurrency parseFloat (ratePM item),
      period item,
      formatCompactCurrency parseFloat (Num (amount item))]"

definition tableData :: "(string \<Rightarrow> rat option) \<Rightarrow> (rat \<Rightarrow> string) \<Rightarrow> Invoice \<Rightarrow> string list list" where
  "tableData parseFloat toString invoice =
     map (itemRow parseFloat toString) (items invoice) @
     [['''', '''', '''', '''', '''', '''', '''', '''', '''', ''SUB TOTAL'',
       formatCompactCurrency parseFloat (Num (subtotal invoice))],
      ['''', '''', '''', '''', '''', '''', '''', '''', '''', ''Add : CGST @ 9%'',
       (if cgst invoice > 0 then formatCompactCurrency parseFloat (Num (cgst invoice)) else ''0'')],
      ['''', '''', '''', '''', '''', '''', '''', '''', '''', ''Add : SGST @ 9%'',
       (if sgst invoice > 0 then formatCompactCurrency parseFloat (Num (sgst invoice)) else ''0'')],
      ['''', '''', '''', '''', '''', '''', '''', '''', '''', ''Add : IGST @ 18%'',
       (if igst invoice > 0 then formatCompactCurrency parseFloat (Num (igst invoice)) else ''0'')],
      ['''', '''', '''', '''', '''', '''', '''', '''', '''', ''Less : PO'', ''0''],
      ['''', '''', '''', '''', '''', '''', '''', '''', '''', ''GRAND TOTAL'',
       formatCompactCurrency parseFloat (Num (grandTotal invoice))]]"

subsection \<open>The split of the table over the first two pages\<close>






section \<open>The initial state of the form\<close>

definition INITIAL_BILLING_PARTY :: BillingParty where
  "INITIAL_BILLING_PARTY =
     \<lparr>name = '''', address = '''', city = '''', state = '''', pincode = '''', gstin = '''',
      phone = Some '''', email = Some ''''\<rparr>"

definition DEFAULT_TERMS :: "string list" where
  "DEFAULT_TERMS =
    [''Any complaint about the advertisement must be received within 7 days from the date of bill.'',
     ''Cheques/D.D.(crossed) to be drawn in favour of DESHKAR ADVERTISING, RAIPUR'',
     ''Interest will be charged @ 24% if the bill is not paid in 10 days.'',
     ''No receipt is valid unless given on official form.'',
     ''Subject to Raipur Jurisdiction. State: Chhattisgarh, State Code : 22'',
     ''Enquiry Pin Code : 492001'',
     ''Our PAN NO.: AKJPD0941N & Our GST NO.: 22AKJPD0941N4Z8'']"

text \<open>\<^verbatim>\<open>lines.join('\n')\<close>\<close>

fun join_lines :: "string list \<Rightarrow> string" where
  "join_lines [] = []"
| "join_lines [l] = l"
| "join_lines (l # ls) = l @ CHR 0x0A # join_lines ls"

text \<open>The argument of \<^verbatim>\<open>useState\<close>; the invoice number and the date come from the clock.\<close>

definition initialFormData :: "string \<Rightarrow> string \<Rightarrow> InvoiceFormData" where
  "initialFormData number today =
     \<lparr>fd_invoiceNumber = number, fd_invoiceDate = today, fd_dueDate = '''', fd_creditDays = 0,
      fd_poNumber = '''', fd_poDate = '''', fd_displayName = '''', fd_duration = ''37'',
      fd_startDate = '''', fd_billingParty = INITIAL_BILLING_PARTY, fd_items = [],
      fd_gstRate = 18, fd_isInterstate = False,
      fd_termsAndConditions = join_lines DEFAULT_TERMS\<rparr>"

section \<open>Properties the specification names\<close>

text \<open>The items carry the sequence numbers \<open>1, 2, \<dots>, N\<close> in the order of the list.\<close>

definition seq_ok :: "InvoiceItem list \<Rightarrow> bool" where
  "seq_ok xs = (map sno xs = map int [1..<Suc (length xs)])"

text \<open>A total row of the table: nine blank cells, the label, the value.\<close>

definition total_row :: "string \<Rightarrow> string \<Rightarrow> string list" where
  "total_row label v = ['''', '''', '''', '''', '''', '''', '''', '''', '''', label, v]"





text \<open>A \<^verbatim>\<open>parseFloat\<close> that reads no string, for amounts that are numbers already.\<close>

definition parse_nothing :: "string \<Rightarrow> rat option" where
  "parse_nothing s = None"

text \<open>
  A string of digits and commas in the Indian grouping: read from the right, a group of
  three digits, then groups of two digits, the leftmost group of one or two digits; or at
  most three digits and no comma.
\<close>

definition is_digit :: "char \<Rightarrow> bool" where
  "is_digit c = (c \<in> set ''0123456789'')"

fun pairs_rev :: "string \<Rightarrow> bool" where
  "pairs_rev [] = False"
| "pairs_rev [a] = is_digit a"
| "pairs_rev [a, b] = (is_digit a \<and> is_digit b)"
| "pairs_rev (a # b # c # r) = (is_digit a \<and> is_digit b \<and> c = CHR '','' \<and> pairs_rev r)"

definition indian_grouping :: "string \<Rightarrow> bool" where
  "indian_grouping s =
     (let r = rev s
      in if length r \<le> 3 then r \<noteq> [] \<and> list_all is_digit r
         else (case r of
                 a # b # c # d # rest \<Rightarrow>
                   is_digit a \<and> is_digit b \<and> is_digit c \<and> d = CHR '','' \<and> pairs_rev rest
               | _ \<Rightarrow> False))"

text \<open>
  The words of a group between 1 and 999, as the specification gives them: the word of
  the hundreds digit and \<open>Hundred\<close>; then, for the rest, a tens word and a ones word from
  20 on, the teen word alone from 10 to 19, the ones word from 1 to 9. The words of a
  number are those of its crore, lakh, thousand and units groups, each group that is not
  zero followed by its scale word, the units group by none. \<open>spaced\<close> writes every word
  with a space behind it.
\<close>

definition spaced :: "string list \<Rightarrow> string" where
  "spaced ws = concat (map (\<lambda>w. w @ '' '') ws)"

definition group_words :: "int \<Rightarrow> string list" where
  "group_words g =
     (let h = g div 100; t = g mod 100
      in (if h > 0 then [ones ! nat h, ''Hundred''] else []) @
         (if 20 \<le> t then
            tens ! nat (t div 10) # (if t mod 10 > 0 then [ones ! nat (t mod 10)] else [])
          else if 10 \<le> t then [teens ! nat (t - 10)]
          else if 0 < t then [ones ! nat t]
          else []))"

definition words_of :: "int \<Rightarrow> string list" where
  "words_of n =
     (let c = n div 10000000;
          l = n mod 10000000 div 100000;
          t = n mod 100000 div 1000;
          u = n mod 1000
      in (if c = 0 then [] else group_words c @ [''Crore'']) @
         (if l = 0 then [] else group_words l @ [''Lakh'']) @
         (if t = 0 then [] else group_words t @ [''Thousand'']) @
         (if u = 0 then [] else group_words u))"

text \<open>A group as the code converts it, with its scale word; nothing for a group of zero.\<close>

definition scaled_group :: "int \<Rightarrow> string \<Rightarrow> string" where
  "scaled_group g scale = (if g = 0 then '''' else convertHundreds g @ scale)"

section \<open>Rounding and remainders\<close>

lemma floor_half_rat: "\<lfloor>(1::rat) / 2\<rfloor> = 0"
  by (simp add: floor_eq_iff)

lemma Math_round_of_int: "Math_round (of_int k) = k"
  by (simp add: Math_round_def floor_half_rat)

lemma Math_round_numeral: "Math_round (numeral n) = numeral n"
  using Math_round_of_int[of "numeral n"] by simp

lemma Math_round_zero: "Math_round 0 = 0"
  by (simp add: Math_round_def floor_half_rat)

lemma Math_round_mono: "x \<le> y \<Longrightarrow> Math_round x \<le> Math_round y"
  by (simp add: Math_round_def floor_mono)

lemma Math_round_nonpos: "x \<le> 0 \<Longrightarrow> Math_round x \<le> 0"
  using Math_round_mono[of x 0] by (simp add: Math_round_zero)

lemma Math_round_pos_small: "0 < a \<Longrightarrow> a < 1 / 2 \<Longrightarrow> Math_round a = 0"
  by (simp add: Math_round_def floor_eq_iff)

lemma Math_round_neg_numeral: "Math_round (- numeral n) = - numeral n"
  using Math_round_of_int[of "- numeral n"] by simp

lemma js_rem_nonneg: "0 \<le> a \<Longrightarrow> 0 < b \<Longrightarrow> js_rem a b = a mod b"
  by (cases "a = 0") (simp_all add: js_rem_def)

section \<open>The totals of an invoice\<close>

lemma calculateGST_1005:
  "calculateGST 1005 18 = \<lparr>g_cgst = 91, g_sgst = 91, g_igst = 181, g_total = 1186\<rparr>"
  by code_simp

lemma Math_round_half: "Math_round (of_int g / 2) = (g + 1) div 2"
proof -
  have "(of_int g :: rat) / 2 + 1 / 2 = of_int (g + 1) / of_int 2"
    by (simp add: add_divide_distrib)
  then show ?thesis
    unfolding Math_round_def by (simp only: floor_divide_of_int_eq)
qed

lemma Math_round_add_int: "Math_round (of_int a + of_int b) = a + b"
  using Math_round_of_int[of "a + b"] by simp

text \<open>On the interstate route the totals of every form add up.\<close>

lemma interstate_total_adds_up:
  "fd_isInterstate fd \<Longrightarrow>
   (let t = calculateTotals fd
    in t_grandTotal t = t_subtotal t + t_cgst t + t_sgst t + t_igst t)"
  by (simp add: calculateTotals_def calculateGST_def Let_def Math_round_of_int Math_round_add_int)

text \<open>On the intrastate route the sum of the lines exceeds the grand total by one exactly
  when the rounded tax is odd.\<close>

lemma intrastate_total_off_by_parity:
  "\<not> fd_isInterstate fd \<Longrightarrow>
   (let t = calculateTotals fd;
        gstAmount = Math_round (t_subtotal t * fd_gstRate fd / 100)
    in t_subtotal t + t_cgst t + t_sgst t + t_igst t
         = t_grandTotal t + of_int (gstAmount mod 2))"
proof -
  have e: "2 * ((g + 1) div 2) = g + g mod 2" for g :: int
    by presburger
  have "(of_int ((g + 1) div 2) :: rat) + of_int ((g + 1) div 2) = of_int g + of_int (g mod 2)"
    for g :: int
    using e[of g] by (metis mult_2 of_int_add)
  then show "\<not> fd_isInterstate fd \<Longrightarrow> ?thesis"
    by (simp add: calculateTotals_def calculateGST_def Let_def Math_round_of_int
          Math_round_add_int Math_round_half add.assoc)
qed

text \<open>
  Claim C1. Every invoice the aggregator produces should satisfy
  \<open>grandTotal = subtotal + cgst + sgst + igst\<close>, the intrastate route \<open>cgst + sgst\<close>
  and the interstate route \<open>igst\<close> of \<open>calculateGST\<close> carrying the same tax.
  The code rounds each half of the tax on its own, so an odd tax breaks the sum on the
  intrastate route: one item of 1005 at 18 per cent within the state gives a tax of 181,
  halves of 91 and 91, and a grand total of 1186, one less than 1005 + 91 + 91.
\<close>

theorem intrastate_total_mismatch:
  "(let invoice = generateInvoice
       ((initialFormData ''INV000001'' ''2025-01-01'')
          \<lparr>fd_items := [(INITIAL_ITEM ''1'' 1)\<lparr>amount := 1005\<rparr>]\<rparr>);
        gst = calculateGST 1005 18
    in subtotal invoice = 1005 \<and> cgst invoice = 91 \<and> sgst invoice = 91 \<and> igst invoice = 0
       \<and> grandTotal invoice = 1186
       \<and> grandTotal invoice \<noteq> subtotal invoice + cgst invoice + sgst invoice + igst invoice
       \<and> g_cgst gst + g_sgst gst = 182 \<and> g_igst gst = 181)"
  using calculateGST_1005
  by (simp add: generateInvoice_def calculateTotals_def initialFormData_def INITIAL_ITEM_def
        Math_round_of_int Math_round_numeral Let_def)

section \<open>The sequence numbers of the items\<close>

lemma length_renumber: "length (renumber k xs) = length xs"
  by (induction xs arbitrary: k) simp_all

lemma renumber_sno: "map sno (renumber k xs) = map (\<lambda>i. int i + 1) [k..<k + length xs]"
proof (induction xs arbitrary: k)
  case Nil
  then show ?case by simp
next
  case (Cons x xs)
  have "[k..<k + length (x # xs)] = k # [Suc k..<Suc k + length xs]"
    using upt_conv_Cons[of k "k + length (x # xs)"] by (simp del: upt_Suc)
  then show ?case using Cons.IH[of "Suc k"] by (simp del: upt_Suc)
qed

lemma seq_ok_alt: "seq_ok xs = (map sno xs = map (\<lambda>i. int i + 1) [0..<length xs])"
proof -
  have "map int [1..<Suc (length xs)] = map (\<lambda>i. int i + 1) [0..<length xs]"
    by (simp add: map_Suc_upt[symmetric] del: upt_Suc)
  then show ?thesis by (simp add: seq_ok_def del: upt_Suc)
qed

text \<open>
  Claim C9. From a form state whose items are numbered \<open>1..N\<close> in list order, adding an
  item, copying an item and removing an item each leave the items numbered \<open>1..N'\<close> in
  list order; adding appends one item, and so does copying an item that exists.
\<close>

theorem sno_contiguous:
  assumes "seq_ok (fd_items fd)"
  shows "seq_ok (fd_items (addItem now fd fd))
    \<and> length (fd_items (addItem now fd fd)) = length (fd_items fd) + 1
    \<and> seq_ok (fd_items (copyItem now cid fd))
    \<and> (cid \<in> item_id ` set (fd_items fd) \<longrightarrow>
         length (fd_items (copyItem now cid fd)) = length (fd_items fd) + 1)
    \<and> seq_ok (fd_items (removeItem rid fd))
    \<and> length (fd_items (removeItem rid fd))
         = length (filter (\<lambda>item. item_id item \<noteq> rid) (fd_items fd))"
  using assms
  by (auto simp add: seq_ok_alt addItem_def copyItem_def removeItem_def INITIAL_ITEM_def Let_def
        renumber_sno length_renumber find_None_iff split: option.splits)

theorem sno_contiguous_witness:
  "(let fd = (initialFormData ''INV000001'' ''2025-01-01'')
               \<lparr>fd_items := [INITIAL_ITEM ''a'' 1, INITIAL_ITEM ''b'' 2]\<rparr>
    in seq_ok (fd_items fd)
       \<and> map sno (fd_items (addItem ''c'' fd fd)) = [1, 2, 3]
       \<and> map sno (fd_items (copyItem ''c'' ''a'' fd)) = [1, 2, 3]
       \<and> map sno (fd_items (removeItem ''a'' fd)) = [1])"
proof -
  define fd where "fd = (initialFormData ''INV000001'' ''2025-01-01'')
               \<lparr>fd_items := [INITIAL_ITEM ''a'' 1, INITIAL_ITEM ''b'' 2]\<rparr>"
  have ok: "seq_ok (fd_items fd)"
    by (simp add: fd_def seq_ok_def INITIAL_ITEM_def)
  have mem: "''a'' \<in> item_id ` set (fd_items fd)"
    by (simp add: fd_def INITIAL_ITEM_def)
  have "map sno (fd_items (addItem ''c'' fd fd)) = [1, 2, 3]
       \<and> map sno (fd_items (copyItem ''c'' ''a'' fd)) = [1, 2, 3]
       \<and> map sno (fd_items (removeItem ''a'' fd)) = [1]"
    using sno_contiguous[OF ok, of "''c''" "''a''" "''a''"] mem
    by (simp add: seq_ok_def fd_def addItem_def copyItem_def removeItem_def INITIAL_ITEM_def)
  with ok show ?thesis by (simp add: fd_def Let_def)
qed

section \<open>The combined table\<close>

lemma length_tableData: "length (tableData pf ts invoice) = length (items invoice) + 6"
  by (simp add: tableData_def)

lemma take_items_tableData:
  "take (length (items invoice)) (tableData pf ts invoice) = map (itemRow pf ts) (items invoice)"
  by (simp add: tableData_def)

lemma drop_items_tableData:
  "drop (length (items invoice)) (tableData pf ts invoice) =
     [['''', '''', '''', '''', '''', '''', '''', '''', '''', ''SUB TOTAL'',
       formatCompactCurrency pf (Num (subtotal invoice))],
      ['''', '''', '''', '''', '''', '''', '''', '''', '''', ''Add : CGST @ 9%'',
       (if cgst invoice > 0 then formatCompactCurrency pf (Num (cgst invoice)) else ''0'')],
      ['''', '''', '''', '''', '''', '''', '''', '''', '''', ''Add : SGST @ 9%'',
       (if sgst invoice > 0 then formatCompactCurrency pf (Num (sgst invoice)) else ''0'')],
      ['''', '''', '''', '''', '''', '''', '''', '''', '''', ''Add : IGST @ 18%'',
       (if igst invoice > 0 then formatCompactCurrency pf (Num (igst invoice)) else ''0'')],
      ['''', '''', '''', '''', '''', '''', '''', '''', '''', ''Less : PO'', ''0''],
      ['''', '''', '''', '''', '''', '''', '''', '''', '''', ''GRAND TOTAL'',
       formatCompactCurrency pf (Num (grandTotal invoice))]]"
  by (simp add: tableData_def)

lemma items_generateInvoice: "items (generateInvoice fd) = fd_items fd"
  by (simp add: generateInvoice_def Let_def)

text \<open>
  Claim C8. In the combined table of every invoice the rows behind the item rows are
  exactly six total rows, in the order SUB TOTAL, CGST, SGST, IGST, Less : PO, GRAND
  TOTAL, whatever the taxes are; the value of Less : PO is always the literal 0, and a
  tax line whose amount is zero is there with the value 0.
\<close>

theorem total_rows_fixed:
  "(let rows = tableData pf ts invoice; n = length (items invoice)
    in length rows = n + 6
     \<and> take n rows = map (itemRow pf ts) (items invoice)
     \<and> drop n rows =
         [total_row ''SUB TOTAL'' (formatCompactCurrency pf (Num (subtotal invoice))),
          total_row ''Add : CGST @ 9%''
            (if cgst invoice > 0 then formatCompactCurrency pf (Num (cgst invoice)) else ''0''),
          total_row ''Add : SGST @ 9%''
            (if sgst invoice > 0 then formatCompactCurrency pf (Num (sgst invoice)) else ''0''),
          total_row ''Add : IGST @ 18%''
            (if igst invoice > 0 then formatCompactCurrency pf (Num (igst invoice)) else ''0''),
          total_row ''Less : PO'' ''0'',
          total_row ''GRAND TOTAL'' (formatCompactCurrency pf (Num (grandTotal invoice)))]
     \<and> (cgst invoice = 0 \<longrightarrow> rows ! (n + 1) = total_row ''Add : CGST @ 9%'' ''0'')
     \<and> (sgst invoice = 0 \<longrightarrow> rows ! (n + 2) = total_row ''Add : SGST @ 9%'' ''0'')
     \<and> (igst invoice = 0 \<longrightarrow> rows ! (n + 3) = total_row ''Add : IGST @ 18%'' ''0'')
     \<and> rows ! (n + 4) = total_row ''Less : PO'' ''0'')"
  by (simp add: Let_def length_tableData take_items_tableData drop_items_tableData total_row_def)
     (simp add: tableData_def nth_append)

theorem total_rows_fixed_witness:
  "(let inter = generateInvoice ((initialFormData ''INV000001'' ''2025-01-01'')
                 \<lparr>fd_items := [(INITIAL_ITEM ''1'' 1)\<lparr>amount := 1000\<rparr>],
                  fd_isInterstate := True\<rparr>);
        intra = generateInvoice ((initialFormData ''INV000001'' ''2025-01-01'')
                 \<lparr>fd_items := [(INITIAL_ITEM ''1'' 1)\<lparr>amount := 1000\<rparr>]\<rparr>);
        pf = (\<lambda>s. None); ts = (\<lambda>a. '''')
    in cgst inter = 0 \<and> sgst inter = 0 \<and> igst intra = 0
     \<and> tableData pf ts inter ! 2 = total_row ''Add : CGST @ 9%'' ''0''
     \<and> tableData pf ts inter ! 3 = total_row ''Add : SGST @ 9%'' ''0''
     \<and> tableData pf ts intra ! 4 = total_row ''Add : IGST @ 18%'' ''0'')"
proof -
  define inter where "inter = generateInvoice ((initialFormData ''INV000001'' ''2025-01-01'')
                 \<lparr>fd_items := [(INITIAL_ITEM ''1'' 1)\<lparr>amount := 1000\<rparr>],
                  fd_isInterstate := True\<rparr>)"
  define intra where "intra = generateInvoice ((initialFormData ''INV000001'' ''2025-01-01'')
                 \<lparr>fd_items := [(INITIAL_ITEM ''1'' 1)\<lparr>amount := 1000\<rparr>]\<rparr>)"
  have z: "cgst inter = 0 \<and> sgst inter = 0 \<and> igst intra = 0"
    by (simp add: inter_def intra_def generateInvoice_def calculateTotals_def
          initialFormData_def Let_def)
  have n: "length (items inter) = 1" "length (items intra) = 1"
    by (simp_all add: inter_def intra_def items_generateInvoice)
  have "tableData (\<lambda>s. None) (\<lambda>a. '''') inter ! 2 = total_row ''Add : CGST @ 9%'' ''0''
     \<and> tableData (\<lambda>s. None) (\<lambda>a. '''') inter ! 3 = total_row ''Add : SGST @ 9%'' ''0''"
    using total_rows_fixed[of "\<lambda>s. None" "\<lambda>a. ''''" inter] z n
    by (simp add: Let_def numeral_2_eq_2 numeral_3_eq_3)
  moreover have "tableData (\<lambda>s. None) (\<lambda>a. '''') intra ! 4 = total_row ''Add : IGST @ 18%'' ''0''"
    using total_rows_fixed[of "\<lambda>s. None" "\<lambda>a. ''''" intra] z n by (simp add: Let_def)
  ultimately show ?thesis
    using z unfolding inter_def intra_def Let_def by simp
qed

lemma calculateGST_1000_12:
  "calculateGST 1000 12 = \<lparr>g_cgst = 60, g_sgst = 60, g_igst = 120, g_total = 1120\<rparr>"
  by code_simp

lemma Intl_format_60: "Intl_format_en_IN False 60 = ''60''"
  by code_simp

lemma tax_labels_any_rate:
  "(let invoice = generateInvoice (fd\<lparr>fd_gstRate := rate\<rparr>);
        rows = tableData pf ts invoice;
        n = length (fd_items fd)
    in map (\<lambda>r. r ! 9) (take 3 (drop (n + 1) rows))
         = [''Add : CGST @ 9%'', ''Add : SGST @ 9%'', ''Add : IGST @ 18%''])"
proof -
  define invoice where "invoice = generateInvoice (fd\<lparr>fd_gstRate := rate\<rparr>)"
  have n: "length (items invoice) = length (fd_items fd)"
    by (simp add: invoice_def items_generateInvoice)
  have "drop (length (fd_items fd) + 1) (tableData pf ts invoice)
          = drop 1 (drop (length (items invoice)) (tableData pf ts invoice))"
    by (simp add: n add.commute)
  then show ?thesis
    unfolding Let_def invoice_def[symmetric]
    by (simp add: drop_items_tableData)
qed

lemma tax_labels_at_12:
  "(let invoice = generateInvoice ((initialFormData ''INV000001'' ''2025-01-01'')
                 \<lparr>fd_items := [(INITIAL_ITEM ''1'' 1)\<lparr>amount := 1000\<rparr>], fd_gstRate := 12\<rparr>);
        rows = tableData pf ts invoice
    in cgst invoice = 60 \<and> sgst invoice = 60 \<and> igst invoice = 0
       \<and> rows ! 2 = total_row ''Add : CGST @ 9%'' ''60''
       \<and> rows ! 3 = total_row ''Add : SGST @ 9%'' ''60''
       \<and> rows ! 4 = total_row ''Add : IGST @ 18%'' ''0'')"
  using calculateGST_1000_12 Intl_format_60
  by (simp add: generateInvoice_def calculateTotals_def initialFormData_def INITIAL_ITEM_def
        Math_round_of_int Math_round_numeral Let_def tableData_def total_row_def
        formatCompactCurrency_def)

text \<open>
  Claim C10. For every invoice, whatever GST rate the form was set to, the three tax rows
  of the table carry the labels \<open>Add : CGST @ 9%\<close>, \<open>Add : SGST @ 9%\<close> and
  \<open>Add : IGST @ 18%\<close>. At a rate of 12 per cent on 1000 within the state, the tax of 60
  computed at 6 per cent stands next to the label that says 9 per cent.
\<close>

theorem tax_labels_fixed:
  "(let invoice = generateInvoice (fd\<lparr>fd_gstRate := rate\<rparr>);
        rows = tableData pf ts invoice;
        n = length (fd_items fd)
    in map (\<lambda>r. r ! 9) (take 3 (drop (n + 1) rows))
         = [''Add : CGST @ 9%'', ''Add : SGST @ 9%'', ''Add : IGST @ 18%''])
   \<and> (let invoice = generateInvoice ((initialFormData ''INV000001'' ''2025-01-01'')
                 \<lparr>fd_items := [(INITIAL_ITEM ''1'' 1)\<lparr>amount := 1000\<rparr>], fd_gstRate := 12\<rparr>);
            rows = tableData pf ts invoice
       in cgst invoice = 60 \<and> sgst invoice = 60 \<and> igst invoice = 0
          \<and> rows ! 2 = total_row ''Add : CGST @ 9%'' ''60''
          \<and> rows ! 3 = total_row ''Add : SGST @ 9%'' ''60''
          \<and> rows ! 4 = total_row ''Add : IGST @ 18%'' ''0'')"
  using tax_labels_any_rate[where fd = fd and rate = rate and pf = pf and ts = ts]
    tax_labels_at_12[where pf = pf and ts = ts]
  by blast

section \<open>The split of the table over the pages\<close>



section \<open>The state of a GSTIN\<close>

lemma distinct_codes: "distinct (map fst GST_STATE_CODES)"
  by (simp add: GST_STATE_CODES_def)

text \<open>
  Claim C6. \<open>getStateFromGSTIN\<close> returns nothing exactly when the GSTIN is empty, is
  shorter than two characters, or begins with two characters that are not a key of the
  table; otherwise it returns the entry of the table under those two characters. The code
  25 is not in the table; \<open>22AKJPD0941N4Z8\<close> resolves to Chhattisgarh with code 22; the
  empty string and \<open>2\<close> resolve to nothing.
\<close>

theorem getStateFromGSTIN_spec:
  "((getStateFromGSTIN g = None) =
      (g = [] \<or> length g < 2 \<or> take 2 g \<notin> fst ` set GST_STATE_CODES))
   \<and> ((getStateFromGSTIN g = Some v) = (2 \<le> length g \<and> (take 2 g, v) \<in> set GST_STATE_CODES))
   \<and> ''25'' \<notin> fst ` set GST_STATE_CODES
   \<and> getStateFromGSTIN ''25AKJPD0941N4Z8'' = None
   \<and> getStateFromGSTIN ''22AKJPD0941N4Z8'' = Some \<lparr>si_state = ''Chhattisgarh'', si_code = ''22''\<rparr>
   \<and> getStateFromGSTIN '''' = None
   \<and> getStateFromGSTIN ''2'' = None"
proof -
  have a: "(getStateFromGSTIN g = None) =
      (g = [] \<or> length g < 2 \<or> take 2 g \<notin> fst ` set GST_STATE_CODES)"
    by (auto simp add: getStateFromGSTIN_def map_of_eq_None_iff)
  have b: "(getStateFromGSTIN g = Some v) = (2 \<le> length g \<and> (take 2 g, v) \<in> set GST_STATE_CODES)"
    using distinct_codes by (auto simp add: getStateFromGSTIN_def)
  have c: "''25'' \<notin> fst ` set GST_STATE_CODES"
    by (simp add: GST_STATE_CODES_def)
  have d: "getStateFromGSTIN ''25AKJPD0941N4Z8'' = None"
    by (simp add: getStateFromGSTIN_def GST_STATE_CODES_def)
  have e: "getStateFromGSTIN ''22AKJPD0941N4Z8'' = Some \<lparr>si_state = ''Chhattisgarh'', si_code = ''22''\<rparr>"
    by (simp add: getStateFromGSTIN_def GST_STATE_CODES_def)
  have f: "getStateFromGSTIN '''' = None" "getStateFromGSTIN ''2'' = None"
    by (simp_all add: getStateFromGSTIN_def)
  show ?thesis using a b c d e f by blast
qed

section \<open>The tax of an amount that is not positive\<close>

text \<open>
  Claim C3, as stated, fails: a negative amount gives a negative tax, not a zero tax.
\<close>

theorem calculateGST_negative_counterexample:
  "calculateGST (- 1000) 18 = \<lparr>g_cgst = - 90, g_sgst = - 90, g_igst = - 180, g_total = - 1180\<rparr>"
  by code_simp

text \<open>
  Claim C3, amended. \<open>calculateGST\<close> is a total function of the amount and the rate. An
  amount that rounds to zero, the amount zero among them, gives a zero tax; an amount
  that is negative or zero, at a rate that is not negative, gives a tax that is negative
  or zero.
\<close>

theorem calculateGST_zero_tax:
  "(Math_round a = 0 \<longrightarrow>
      g_cgst (calculateGST a rate) = 0 \<and> g_sgst (calculateGST a rate) = 0
      \<and> g_igst (calculateGST a rate) = 0)
   \<and> (a \<le> 0 \<and> 0 \<le> rate \<longrightarrow>
      g_cgst (calculateGST a rate) \<le> 0 \<and> g_sgst (calculateGST a rate) \<le> 0
      \<and> g_igst (calculateGST a rate) \<le> 0)"
proof (intro conjI impI)
  assume "Math_round a = 0"
  then have "calculateGST a rate = \<lparr>g_cgst = 0, g_sgst = 0, g_igst = 0, g_total = 0\<rparr>"
    by (simp add: calculateGST_def Math_round_of_int Math_round_zero)
  then show "g_cgst (calculateGST a rate) = 0" "g_sgst (calculateGST a rate) = 0"
    "g_igst (calculateGST a rate) = 0" by simp_all
next
  assume h: "a \<le> 0 \<and> 0 \<le> rate"
  have 1: "Math_round a \<le> 0" using h by (intro Math_round_nonpos) simp
  then have "rat_of_int (Math_round a) * rate / 100 \<le> 0"
    using h by (simp add: mult_nonpos_nonneg divide_nonpos_pos)
  then have 2: "Math_round (rat_of_int (Math_round a) * rate / 100) \<le> 0"
    by (rule Math_round_nonpos)
  then have 3: "Math_round (rat_of_int (Math_round (rat_of_int (Math_round a) * rate / 100)) / 2) \<le> 0"
    by (intro Math_round_nonpos) simp
  show "g_cgst (calculateGST a rate) \<le> 0" "g_sgst (calculateGST a rate) \<le> 0"
    "g_igst (calculateGST a rate) \<le> 0"
    using 2 3 by (simp_all add: calculateGST_def Math_round_of_int Let_def)
qed

theorem calculateGST_zero_tax_witness:
  "Math_round 0 = 0 \<and> g_cgst (calculateGST 0 18) = 0 \<and> g_sgst (calculateGST 0 18) = 0
   \<and> g_igst (calculateGST 0 18) = 0
   \<and> (- 1000 :: rat) \<le> 0 \<and> (0 :: rat) \<le> 18 \<and> g_igst (calculateGST (- 1000) 18) \<le> 0"
  using calculateGST_zero_tax[of 0 18] calculateGST_zero_tax[of "- 1000" 18]
  by (simp add: Math_round_zero)

section \<open>The amount in words\<close>

lemma arr_get_ones: "0 \<le> i \<Longrightarrow> i < 10 \<Longrightarrow> arr_get ones i = ones ! nat i"
  by (simp add: arr_get_def ones_def)

lemma arr_get_tens: "0 \<le> i \<Longrightarrow> i < 10 \<Longrightarrow> arr_get tens i = tens ! nat i"
  by (simp add: arr_get_def tens_def)

lemma arr_get_teens: "0 \<le> i \<Longrightarrow> i < 10 \<Longrightarrow> arr_get teens i = teens ! nat i"
  by (simp add: arr_get_def teens_def)

lemma convertHundreds_below_100:
  assumes "0 \<le> t" "t < 100"
  shows "convertHundreds t =
     spaced (if 20 \<le> t then
               tens ! nat (t div 10) # (if t mod 10 > 0 then [ones ! nat (t mod 10)] else [])
             else if 10 \<le> t then [teens ! nat (t - 10)]
             else if 0 < t then [ones ! nat t]
             else [])"
proof -
  have d: "0 \<le> t div 10" "t div 10 < 10" "0 \<le> t mod 10" "t mod 10 < 10"
    using assms by auto
  show ?thesis
    using assms d
    by (simp add: convertHundreds_def spaced_def js_rem_nonneg arr_get_ones arr_get_tens
         arr_get_teens Let_def)
qed

lemma convertHundreds_group_words:
  assumes "1 \<le> g" "g \<le> 999"
  shows "convertHundreds g = spaced (group_words g)"
proof (cases "g < 100")
  case True
  then have "g div 100 = 0" "g mod 100 = g" using assms by auto
  then show ?thesis
    using convertHundreds_below_100[of g] assms True
    by (simp add: group_words_def Let_def)
next
  case False
  define h where "h = g div 100"
  define t where "t = g mod 100"
  have h: "0 < h" "h < 10" and t: "0 \<le> t" "t < 100"
    using assms False by (auto simp: h_def t_def)
  have d: "0 \<le> t div 10" "t div 10 < 10" "0 \<le> t mod 10" "t mod 10 < 10"
    using t by auto
  have "convertHundreds g = ones ! nat h @ '' Hundred '' @ convertHundreds t"
    using False assms h t d
    by (simp add: convertHundreds_def js_rem_nonneg arr_get_ones arr_get_tens arr_get_teens
          Let_def h_def[symmetric] t_def[symmetric])
  also have "\<dots> = spaced (group_words g)"
    using h convertHundreds_below_100[OF t]
    by (simp add: group_words_def Let_def h_def[symmetric] t_def[symmetric] spaced_def)
  finally show ?thesis .
qed

lemma nonneg_pos_iff: "0 \<le> (x::int) \<Longrightarrow> (0 < x) = (x \<noteq> 0)"
  by auto

lemma numberToWords_groups:
  assumes "0 < n"
  shows "numberToWords n =
     js_trim (scaled_group (n div 10000000) ''Crore '' @
              scaled_group (n mod 10000000 div 100000) ''Lakh '' @
              scaled_group (n mod 100000 div 1000) ''Thousand '' @
              scaled_group (n mod 1000) '''') @ '' Only''"
proof -
  have n0: "0 \<le> n" "n \<noteq> 0" using assms by simp_all
  have r: "js_rem n 10000000 = n mod 10000000" "js_rem n 100000 = n mod 100000"
    "js_rem n 1000 = n mod 1000"
    using n0 by (simp_all add: js_rem_nonneg)
  define c where "c = n div 10000000"
  define l where "l = n mod 10000000 div 100000"
  define t where "t = n mod 100000 div 1000"
  define u where "u = n mod 1000"
  have nn: "0 \<le> c" "0 \<le> l" "0 \<le> t" "0 \<le> u"
    using n0 by (simp_all add: c_def l_def t_def u_def pos_imp_zdiv_nonneg_iff)
  have "numberToWords n =
      js_trim ((if 0 < c then convertHundreds c @ ''Crore '' else '''') @
               (if 0 < l then convertHundreds l @ ''Lakh '' else '''') @
               (if 0 < t then convertHundreds t @ ''Thousand '' else '''') @
               (if 0 < u then convertHundreds u else '''')) @ '' Only''"
    using n0(2)
    by (simp add: numberToWords_def r Let_def c_def[symmetric] l_def[symmetric]
          t_def[symmetric] u_def[symmetric])
  then show ?thesis
    by (simp add: scaled_group_def nonneg_pos_iff[OF nn(1)] nonneg_pos_iff[OF nn(2)]
          nonneg_pos_iff[OF nn(3)] nonneg_pos_iff[OF nn(4)]
          c_def[symmetric] l_def[symmetric] t_def[symmetric] u_def[symmetric])
qed

lemma spaced_append: "spaced (xs @ ys) = spaced xs @ spaced ys"
  by (simp add: spaced_def)

lemma scaled_group_words:
  assumes "0 \<le> g" "g \<le> 999"
  shows "scaled_group g (w @ '' '') = spaced (if g = 0 then [] else group_words g @ [w])"
    and "scaled_group g '''' = spaced (if g = 0 then [] else group_words g)"
  using assms convertHundreds_group_words[of g]
  by (auto simp: scaled_group_def spaced_append) (simp_all add: spaced_def)

lemma numberToWords_words_of:
  assumes "0 < n" "n div 10000000 \<le> 999"
  shows "numberToWords n = js_trim (spaced (words_of n)) @ '' Only''"
proof -
  define c where "c = n div 10000000"
  define ml where "ml = n mod 10000000"
  define mt where "mt = n mod 100000"
  define u where "u = n mod 1000"
  have c: "0 \<le> c" "c \<le> 999"
    using assms by (simp_all add: c_def pos_imp_zdiv_nonneg_iff)
  have "0 \<le> ml" "ml < 10000000" by (simp_all add: ml_def)
  then have l: "0 \<le> ml div 100000" "ml div 100000 \<le> 999" by auto
  have "0 \<le> mt" "mt < 100000" by (simp_all add: mt_def)
  then have t: "0 \<le> mt div 1000" "mt div 1000 \<le> 999" by auto
  have u: "0 \<le> u" "u \<le> 999" by (simp_all add: u_def)
  have "numberToWords n =
     js_trim (scaled_group c (''Crore'' @ '' '') @
              scaled_group (ml div 100000) (''Lakh'' @ '' '') @
              scaled_group (mt div 1000) (''Thousand'' @ '' '') @
              scaled_group u '''') @ '' Only''"
    using numberToWords_groups[OF assms(1)] by (simp add: c_def ml_def mt_def u_def)
  also have "\<dots> = js_trim (spaced (words_of n)) @ '' Only''"
    unfolding scaled_group_words(1)[OF c] scaled_group_words(1)[OF l]
      scaled_group_words(1)[OF t] scaled_group_words(2)[OF u]
    by (simp only: words_of_def Let_def spaced_append c_def ml_def mt_def u_def)
  finally show ?thesis .
qed

lemma convertHundreds_examples:
  "convertHundreds 1 = ''One ''" "convertHundreds 50 = ''Fifty ''"
  "convertHundreds 23 = ''Twenty Three ''" "convertHundreds 45 = ''Forty Five ''"
  "convertHundreds 678 = ''Six Hundred Seventy Eight ''"
  "convertHundreds 100 = ''One Hundred ''" "convertHundreds 15 = ''Fifteen ''"
  by (simp_all add: convertHundreds_def js_rem_def arr_get_def ones_def tens_def teens_def)

lemma numberToWords_examples:
  "numberToWords 0 = ''Zero''"
  "numberToWords 100 = ''One Hundred Only''"
  "numberToWords 150000 = ''One Lakh Fifty Thousand Only''"
  "numberToWords 12345678 =
     ''One Crore Twenty Three Lakh Forty Five Thousand Six Hundred Seventy Eight Only''"
  by (simp_all add: numberToWords_def js_rem_def convertHundreds_examples js_trim_def is_ws_def)

text \<open>
  Claim C5. \<open>numberToWords 0\<close> is \<open>Zero\<close>. For a positive \<open>n\<close> the result is the
  trimmed concatenation of the crore, lakh, thousand and units groups of \<open>n\<close>, a group of
  zero left out and every other group but the units group followed by its scale word,
  with \<open> Only\<close> behind it. A group between 1 and 999 is converted to the words the
  specification gives, a teen taking its one word; so whenever the crore group is at most
  999 the result is the trimmed, spaced list of the specified words of \<open>n\<close>. The three
  examples of the specification hold.
\<close>

theorem numberToWords_spec:
  "numberToWords 0 = ''Zero''
   \<and> (0 < n \<longrightarrow>
        numberToWords n =
          js_trim (scaled_group (n div 10000000) ''Crore '' @
                   scaled_group (n mod 10000000 div 100000) ''Lakh '' @
                   scaled_group (n mod 100000 div 1000) ''Thousand '' @
                   scaled_group (n mod 1000) '''') @ '' Only'')
   \<and> (1 \<le> g \<and> g \<le> 999 \<longrightarrow> convertHundreds g = spaced (group_words g))
   \<and> (0 < n \<and> n div 10000000 \<le> 999 \<longrightarrow>
        numberToWords n = js_trim (spaced (words_of n)) @ '' Only'')
   \<and> numberToWords 100 = ''One Hundred Only''
   \<and> numberToWords 150000 = ''One Lakh Fifty Thousand Only''
   \<and> numberToWords 12345678 =
       ''One Crore Twenty Three Lakh Forty Five Thousand Six Hundred Seventy Eight Only''"
  using numberToWords_groups[of n] convertHundreds_group_words[of g]
    numberToWords_words_of[of n] numberToWords_examples
  by blast

lemma words_of_150000: "words_of 150000 = [''One'', ''Lakh'', ''Fifty'', ''Thousand'']"
  by (simp add: words_of_def group_words_def ones_def tens_def)

lemma group_words_15: "group_words 15 = [''Fifteen'']"
  by (simp add: group_words_def teens_def)

theorem numberToWords_spec_witness:
  "(0 :: int) < 150000 \<and> (150000 :: int) div 10000000 \<le> 999
   \<and> numberToWords 150000 = js_trim (spaced [''One'', ''Lakh'', ''Fifty'', ''Thousand'']) @ '' Only''
   \<and> (1 :: int) \<le> 15 \<and> (15 :: int) \<le> 999 \<and> convertHundreds 15 = spaced [''Fifteen'']"
proof -
  have h: "(0 :: int) < 150000 \<and> (150000 :: int) div 10000000 \<le> 999" by simp
  have g: "(1 :: int) \<le> 15 \<and> (15 :: int) \<le> 999" by simp
  have "numberToWords 150000 = js_trim (spaced (words_of 150000)) @ '' Only''"
    using numberToWords_spec[of 150000 15] h by blast
  moreover have "convertHundreds 15 = spaced (group_words 15)"
    using numberToWords_spec[of 150000 15] g by blast
  ultimately show ?thesis
    using h g by (simp only: words_of_150000 group_words_15 simp_thms)
qed

section \<open>The formatted amount\<close>

lemma is_digit_digit_char: "d < 10 \<Longrightarrow> is_digit (digit_char d)"
proof -
  assume "d < 10"
  then have "d \<in> {0, 1, 2, 3, 4, 5, 6, 7, 8, 9}" by auto
  then show ?thesis by (auto simp: is_digit_def digit_char_def)
qed

lemma digits10_digits: "list_all is_digit (digits10 n)"
proof (induction n rule: digits10.induct)
  case (1 n)
  show ?case
  proof (cases "n < 10")
    case True
    then show ?thesis by (subst digits10.simps) (simp add: is_digit_digit_char)
  next
    case False
    then show ?thesis using 1 by (subst digits10.simps) (simp add: is_digit_digit_char)
  qed
qed

lemma digits10_nonempty: "digits10 n \<noteq> []"
  by (subst digits10.simps) simp

lemma comma_not_digit: "is_digit c \<Longrightarrow> c \<noteq> CHR '',''"
  by (auto simp: is_digit_def)

lemma pairs_rev_group_pairs: "r \<noteq> [] \<Longrightarrow> list_all is_digit r \<Longrightarrow> pairs_rev (group_pairs r)"
  by (induction r rule: group_pairs.induct) simp_all

lemma filter_group_pairs:
  "list_all is_digit r \<Longrightarrow> filter (\<lambda>c. c \<noteq> CHR '','') (group_pairs r) = r"
proof (induction r rule: group_pairs.induct)
  case (1 a b c r)
  then show ?case by (simp add: comma_not_digit)
qed (simp_all add: comma_not_digit list_all_iff)

lemma filter_digits: "list_all is_digit r \<Longrightarrow> filter (\<lambda>c. c \<noteq> CHR '','') r = r"
  by (induction r) (simp_all add: comma_not_digit)

lemma group_en_IN_ok:
  assumes ne: "ds \<noteq> []" and dg: "list_all is_digit ds"
  shows "indian_grouping (group_en_IN ds)"
    and "filter (\<lambda>c. c \<noteq> CHR '','') (group_en_IN ds) = ds"
proof -
  define r where "r = rev ds"
  have rd: "list_all is_digit r" and rne: "r \<noteq> []"
    using ne dg by (simp_all add: r_def list_all_iff)
  show "indian_grouping (group_en_IN ds)"
  proof (cases "length r \<le> 3")
    case True
    then show ?thesis using rd rne
      by (simp add: group_en_IN_def indian_grouping_def r_def[symmetric] Let_def)
  next
    case False
    obtain a r1 where 1: "r = a # r1" using False by (cases r) auto
    obtain b r2 where 2: "r1 = b # r2" using False 1 by (cases r1) auto
    obtain c r3 where 3: "r2 = c # r3" using False 1 2 by (cases r2) auto
    have r3: "r3 \<noteq> []" using False 1 2 3 by auto
    have "group_en_IN ds = rev (a # b # c # CHR '','' # group_pairs r3)"
      using False 1 2 3 by (simp add: group_en_IN_def r_def[symmetric] Let_def)
    then show ?thesis using rd 1 2 3 r3
      by (simp add: indian_grouping_def pairs_rev_group_pairs)
  qed
  show "filter (\<lambda>c. c \<noteq> CHR '','') (group_en_IN ds) = ds"
  proof (cases "length r \<le> 3")
    case True
    then show ?thesis using dg
      by (simp add: group_en_IN_def r_def[symmetric] Let_def filter_digits)
  next
    case False
    have t: "list_all is_digit (take 3 r)" and d: "list_all is_digit (drop 3 r)"
      using rd by (auto simp: list_all_iff dest: in_set_takeD in_set_dropD)
    have "filter (\<lambda>c. c \<noteq> CHR '','') (take 3 r @ CHR '','' # group_pairs (drop 3 r))
          = take 3 r @ drop 3 r"
      using t d by (simp add: filter_group_pairs filter_digits)
    then have "filter (\<lambda>c. c \<noteq> CHR '','') (rev (take 3 r @ CHR '','' # group_pairs (drop 3 r)))
          = rev r"
      by (simp only: rev_filter[symmetric] append_take_drop_id)
    then show ?thesis using False
      by (simp add: group_en_IN_def r_def[symmetric] Let_def) (simp add: r_def)
  qed
qed

lemma formatCompactCurrency_eq: "formatCompactCurrency pf x = formatCurrency pf x"
  by (simp add: formatCompactCurrency_def formatCurrency_def)

lemmas format_eval = formatCurrency_def Intl_format_en_IN_def Math_round_numeral
  Math_round_neg_numeral digits10.simps digit_char_def group_en_IN_def

text \<open>
  Claim C4, as stated, fails: an amount that is not zero but rounds to zero is formatted
  as the digit \<open>0\<close>, not as the empty string, because the test for zero comes before
  the rounding.
\<close>

theorem formatCurrency_round_zero_counterexample:
  "Math_round (2 / 5) = 0 \<and> formatCurrency parse_nothing (Num (2 / 5)) = ''0''"
  by (simp add: format_eval Math_round_pos_small)

lemma formatCurrency_negative_example:
  "formatCurrency (\<lambda>s. None) (Num (- 1234567)) = ''-12,34,567''"
  by (simp add: format_eval)

lemma digits10_0: "digits10 0 = ''0''"
  by (simp add: digits10.simps digit_char_def)

text \<open>
  Claim C4, amended. \<open>formatCurrency\<close> of the number zero is the empty string. For a
  positive amount the result consists of digits and commas in the Indian grouping, with
  no decimal portion, and its digits are those of the rounded amount: the single digit
  \<open>0\<close> for an amount below one half. For a negative amount the result is a minus sign
  followed by such a string for the rounded amount without its sign.
  \<open>formatCompactCurrency\<close> returns the same strings.
\<close>

theorem formatCurrency_grouping:
  "formatCurrency pf (Num 0) = ''''
   \<and> (0 < a \<and> a < 1 / 2 \<longrightarrow> formatCurrency pf (Num a) = ''0'')
   \<and> (0 < a \<longrightarrow>
        indian_grouping (formatCurrency pf (Num a))
        \<and> filter (\<lambda>c. c \<noteq> CHR '','') (formatCurrency pf (Num a)) = digits10 (nat (Math_round a)))
   \<and> (a < 0 \<longrightarrow>
        hd (formatCurrency pf (Num a)) = CHR ''-''
        \<and> indian_grouping (tl (formatCurrency pf (Num a)))
        \<and> filter (\<lambda>c. c \<noteq> CHR '','') (tl (formatCurrency pf (Num a)))
            = digits10 (nat (- Math_round a)))
   \<and> formatCompactCurrency pf (Num a) = formatCurrency pf (Num a)"
proof (intro conjI impI)
  show "formatCurrency pf (Num 0) = ''''" by (simp add: formatCurrency_def)
next
  assume "0 < a \<and> a < 1 / 2"
  then show "formatCurrency pf (Num a) = ''0''"
    by (simp add: formatCurrency_def Intl_format_en_IN_def Math_round_pos_small digits10_0
          group_en_IN_def)
next
  assume a: "0 < a"
  then have "0 \<le> Math_round a" using Math_round_mono[of 0 a] by (simp add: Math_round_zero)
  then have f: "formatCurrency pf (Num a) = group_en_IN (digits10 (nat (Math_round a)))"
    using a by (simp add: formatCurrency_def Intl_format_en_IN_def)
  show "indian_grouping (formatCurrency pf (Num a))"
    unfolding f by (rule group_en_IN_ok(1)[OF digits10_nonempty digits10_digits])
  show "filter (\<lambda>c. c \<noteq> CHR '','') (formatCurrency pf (Num a)) = digits10 (nat (Math_round a))"
    unfolding f by (rule group_en_IN_ok(2)[OF digits10_nonempty digits10_digits])
next
  assume a: "a < 0"
  then have "Math_round a \<le> 0" by (intro Math_round_nonpos) simp
  then have f: "formatCurrency pf (Num a)
      = CHR ''-'' # group_en_IN (digits10 (nat (- Math_round a)))"
    using a by (simp add: formatCurrency_def Intl_format_en_IN_def)
  show "hd (formatCurrency pf (Num a)) = CHR ''-''" by (simp add: f)
  show "indian_grouping (tl (formatCurrency pf (Num a)))"
    unfolding f list.sel by (rule group_en_IN_ok(1)[OF digits10_nonempty digits10_digits])
  show "filter (\<lambda>c. c \<noteq> CHR '','') (tl (formatCurrency pf (Num a)))
      = digits10 (nat (- Math_round a))"
    unfolding f list.sel by (rule group_en_IN_ok(2)[OF digits10_nonempty digits10_digits])
next
  show "formatCompactCurrency pf (Num a) = formatCurrency pf (Num a)"
    by (rule formatCompactCurrency_eq)
qed

lemma formatCurrency_1234567: "formatCurrency (\<lambda>s. None) (Num 1234567) = ''12,34,567''"
  by (simp add: format_eval)

theorem formatCurrency_grouping_witness:
  "(0 :: rat) < 1234567 \<and> formatCurrency (\<lambda>s. None) (Num 1234567) = ''12,34,567''
   \<and> indian_grouping ''12,34,567''
   \<and> (0 :: rat) < 2 / 5 \<and> (2 / 5 :: rat) < 1 / 2 \<and> formatCurrency (\<lambda>s. None) (Num (2 / 5)) = ''0''
   \<and> (- 1500 :: rat) < 0 \<and> indian_grouping (tl (formatCurrency (\<lambda>s. None) (Num (- 1500))))"
  using formatCurrency_grouping[of "\<lambda>s. None" 1234567]
    formatCurrency_grouping[of "\<lambda>s. None" "2 / 5"]
    formatCurrency_grouping[of "\<lambda>s. None" "- 1500"] formatCurrency_1234567
  by simp

section \<open>The amount of a duration\<close>

subsection \<open>Rounding to a double\<close>











subsection \<open>The amount\<close>









end
